theory Spec2Isabelle
  imports Main "HOL-Library.Sublist"
begin

section \<open>Values, errors and the clock\<close>

text \<open>
  The history file holds JSON. What \<open>json.load\<close> returns is a Python value built from
  \<open>None\<close>, booleans, numbers, strings, lists and dictionaries with string keys. A
  dictionary is kept as an association list, read with \<open>map_of\<close>. A float is kept as
  its literal text: the program never computes with one.
\<close>

datatype json =
    JNull
  | JBool bool
  | JInt int
  | JFloat string
  | JStr string
  | JList "json list"
  | JDict "(string \<times> json) list"

text \<open>The exceptions that the modelled statements can raise.\<close>

datatype py_error = KeyError | TypeError | ValueError | OverflowError | IndexError

text \<open>
  \<open>datetime.now()\<close> is a naive datetime. One call of \<open>update_history\<close> reads the clock
  three times in a row; the model takes the three reads as one value \<open>now\<close>.
\<close>

record datetime =
  year :: nat
  month :: nat
  day :: nat
  hour :: nat
  minute :: nat
  second :: nat
  microsecond :: nat

definition is_leap :: "nat \<Rightarrow> bool" where
  "is_leap y = (y mod 4 = 0 \<and> (y mod 100 \<noteq> 0 \<or> y mod 400 = 0))"

definition days_in_month :: "nat \<Rightarrow> nat \<Rightarrow> nat" where
  "days_in_month y m =
     (if m = 2 then (if is_leap y then 29 else 28)
      else if m = 4 \<or> m = 6 \<or> m = 9 \<or> m = 11 then 30 else 31)"

definition valid_date :: "nat \<Rightarrow> nat \<Rightarrow> nat \<Rightarrow> bool" where
  "valid_date y m d =
     (1 \<le> y \<and> y \<le> 9999 \<and> 1 \<le> m \<and> m \<le> 12 \<and> 1 \<le> d \<and> d \<le> days_in_month y m)"

definition valid_datetime :: "datetime \<Rightarrow> bool" where
  "valid_datetime t =
     (valid_date (year t) (month t) (day t) \<and> hour t < 24 \<and> minute t < 60
      \<and> second t < 60 \<and> microsecond t < 1000000)"

text \<open>
  The proleptic Gregorian ordinal of a date (\<open>toordinal\<close>): 0001-01-01 is day 1.
\<close>

definition days_before_year :: "nat \<Rightarrow> int" where
  "days_before_year y =
     (let p = int y - 1 in p * 365 + p div 4 - p div 100 + p div 400)"

definition days_before_month :: "nat \<Rightarrow> nat \<Rightarrow> int" where
  "days_before_month y m =
     int ([0, 0, 31, 59, 90, 120, 151, 181, 212, 243, 273, 304, 334] ! (min m 12))
       + (if 2 < m \<and> is_leap y then 1 else 0)"

definition toordinal :: "datetime \<Rightarrow> int" where
  "toordinal t = days_before_year (year t) + days_before_month (year t) (month t) + int (day t)"

definition time_of_day :: "datetime \<Rightarrow> nat" where
  "time_of_day t = ((hour t * 60 + minute t) * 60 + second t) * 1000000 + microsecond t"

text \<open>
  A point in time as datetimes are compared: the day's ordinal, then the microseconds
  since midnight.
\<close>

type_synonym instant = "int \<times> nat"

definition instant_of :: "datetime \<Rightarrow> instant" where
  "instant_of t = (toordinal t, time_of_day t)"

definition instant_le :: "instant \<Rightarrow> instant \<Rightarrow> bool" where
  "instant_le a b = (fst a < fst b \<or> (fst a = fst b \<and> snd a \<le> snd b))"

definition instant_less :: "instant \<Rightarrow> instant \<Rightarrow> bool" where
  "instant_less a b = (fst a < fst b \<or> (fst a = fst b \<and> snd a < snd b))"

definition MAX_DAYS :: int where
  "MAX_DAYS = 30"

text \<open>
  \<open>datetime.now() - timedelta(days=MAX_DAYS)\<close>: the same time of day, \<open>MAX_DAYS\<close> days
  earlier. The subtraction raises \<open>OverflowError\<close> when the day would fall before
  0001-01-01.
\<close>

definition cutoff_date :: "datetime \<Rightarrow> py_error + instant" where
  "cutoff_date now =
     (if toordinal now - MAX_DAYS \<le> 0 then Inl OverflowError
      else Inr (toordinal now - MAX_DAYS, time_of_day now))"

section \<open>Formatting and parsing dates\<close>

definition digit_char :: "nat \<Rightarrow> char" where
  "digit_char n = ''0123456789'' ! (n mod 10)"

definition digit_of :: "char \<Rightarrow> nat option" where
  "digit_of c = map_of (zip ''0123456789'' [0, 1, 2, 3, 4, 5, 6, 7, 8, 9]) c"

definition pad2 :: "nat \<Rightarrow> string" where
  "pad2 n = [digit_char (n div 10), digit_char n]"

definition pad4 :: "nat \<Rightarrow> string" where
  "pad4 n = [digit_char (n div 1000), digit_char (n div 100), digit_char (n div 10), digit_char n]"

text \<open>\<open>strftime("%Y/%m/%d")\<close> and \<open>strftime("recommend_%Y%m%d.html")\<close>.\<close>

definition strftime_slash :: "datetime \<Rightarrow> string" where
  "strftime_slash t = pad4 (year t) @ ''/'' @ pad2 (month t) @ ''/'' @ pad2 (day t)"

definition strftime_filename :: "datetime \<Rightarrow> string" where
  "strftime_filename t =
     ''recommend_'' @ pad4 (year t) @ pad2 (month t) @ pad2 (day t) @ ''.html''"

text \<open>
  \<open>datetime.strptime\<close> turns its format into a regular expression and matches it at the
  start of the text: \<open>%Y\<close> is four digits, \<open>%m\<close> is \<open>1[0-2]|0[1-9]|[1-9]\<close>, \<open>%d\<close> is
  \<open>3[01]|[12]\d|0[1-9]|[1-9]| [1-9]\<close>. Each matcher below returns the ways its pattern
  matches a prefix, in the order the alternatives are tried, as pairs of the number read
  and the text left; the first complete match is the one the regular expression finds.
  Text left after it is "unconverted data", a \<open>ValueError\<close>, as is a day the month does
  not have. The result \<open>None\<close> stands for \<open>ValueError\<close>. Characters are ASCII.
\<close>

definition re_lit :: "char \<Rightarrow> string \<Rightarrow> string list" where
  "re_lit c s = (case s of [] \<Rightarrow> [] | x # r \<Rightarrow> if x = c then [r] else [])"

definition re_Y :: "string \<Rightarrow> (nat \<times> string) list" where
  "re_Y s =
     (case s of
        a # b # c # d # r \<Rightarrow>
          (case (digit_of a, digit_of b, digit_of c, digit_of d) of
             (Some w, Some x, Some y, Some z) \<Rightarrow> [(1000 * w + 100 * x + 10 * y + z, r)]
           | _ \<Rightarrow> [])
      | _ \<Rightarrow> [])"

definition two_chars :: "string \<Rightarrow> string \<Rightarrow> string \<Rightarrow> (nat \<times> string) list" where
  "two_chars firsts seconds s =
     (case s of
        a # b # r \<Rightarrow>
          (if a \<in> set firsts \<and> b \<in> set seconds
           then (case (digit_of a, digit_of b) of
                   (Some x, Some y) \<Rightarrow> [(10 * x + y, r)]
                 | _ \<Rightarrow> [])
           else [])
      | _ \<Rightarrow> [])"

definition one_char :: "string \<Rightarrow> string \<Rightarrow> (nat \<times> string) list" where
  "one_char firsts s =
     (case s of
        a # r \<Rightarrow>
          (if a \<in> set firsts
           then (case digit_of a of Some x \<Rightarrow> [(x, r)] | None \<Rightarrow> [])
           else [])
      | _ \<Rightarrow> [])"

definition re_m :: "string \<Rightarrow> (nat \<times> string) list" where
  "re_m s = two_chars ''1'' ''012'' s @ two_chars ''0'' ''123456789'' s @ one_char ''123456789'' s"

definition re_d :: "string \<Rightarrow> (nat \<times> string) list" where
  "re_d s =
     two_chars ''3'' ''01'' s @ two_chars ''12'' ''0123456789'' s
       @ two_chars ''0'' ''123456789'' s @ one_char ''123456789'' s
       @ List.bind (re_lit CHR '' '' s) (one_char ''123456789'')"

definition make_date :: "nat \<Rightarrow> nat \<Rightarrow> nat \<Rightarrow> datetime option" where
  "make_date y m d =
     (if valid_date y m d
      then Some \<lparr>year = y, month = m, day = d, hour = 0, minute = 0, second = 0, microsecond = 0\<rparr>
      else None)"

definition finish_match :: "(nat \<times> nat \<times> nat \<times> string) list \<Rightarrow> datetime option" where
  "finish_match found =
     (case found of
        [] \<Rightarrow> None
      | (y, m, d, r) # _ \<Rightarrow> if r = [] then make_date y m d else None)"

text \<open>\<open>datetime.strptime(s, "%Y/%m/%d")\<close>.\<close>

definition strptime_slash :: "string \<Rightarrow> datetime option" where
  "strptime_slash s =
     finish_match
       (List.bind (re_Y s) (\<lambda>(y, r1).
        List.bind (re_lit CHR ''/'' r1) (\<lambda>r2.
        List.bind (re_m r2) (\<lambda>(m, r3).
        List.bind (re_lit CHR ''/'' r3) (\<lambda>r4.
        List.bind (re_d r4) (\<lambda>(d, r5). [(y, m, d, r5)]))))))"

text \<open>\<open>datetime.strptime(s, "%Y%m%d")\<close>.\<close>

definition strptime_compact :: "string \<Rightarrow> datetime option" where
  "strptime_compact s =
     finish_match
       (List.bind (re_Y s) (\<lambda>(y, r1).
        List.bind (re_m r1) (\<lambda>(m, r2).
        List.bind (re_d r2) (\<lambda>(d, r3). [(y, m, d, r3)]))))"

section \<open>The history file\<close>

text \<open>
  What the program can see of a file it opens: \<open>os.path.exists\<close> is false
  (\<open>Missing\<close>); or the file is there and \<open>json.load\<close> raises \<open>JSONDecodeError\<close> on
  its text (\<open>Undecodable\<close>, which is the case of the empty text and of every text that
  is not JSON); or \<open>json.load\<close> returns a value (\<open>Stored\<close>). \<open>json.dump\<close> leaves a
  file from which \<open>json.load\<close> reads the dumped value back. Paths are strings.
\<close>

datatype history_file = Missing | Undecodable string | Stored json

type_synonym filesystem = "string \<Rightarrow> history_file"

definition HISTORY_FILE_NAME :: string where
  "HISTORY_FILE_NAME = ''history.json''"

definition os_path_join :: "string \<Rightarrow> string \<Rightarrow> string" where
  "os_path_join a b =
     (if b \<noteq> [] \<and> hd b = CHR ''/'' then b
      else if a = [] \<or> last a = CHR ''/'' then a @ b
      else a @ ''/'' @ b)"

text \<open>Step 1 of \<open>update_history\<close>: the load that falls back to the empty list.\<close>

definition load_history :: "filesystem \<Rightarrow> string \<Rightarrow> json" where
  "load_history fs path =
     (case fs path of
        Missing \<Rightarrow> JList []
      | Undecodable txt \<Rightarrow> JList []
      | Stored v \<Rightarrow> v)"

section \<open>The retention pass\<close>

text \<open>
  \<open>for entry in history\<close>: a list gives its elements, a dictionary its keys, a string
  its characters; nothing else can be iterated.
\<close>

fun iter :: "json \<Rightarrow> py_error + json list" where
  "iter (JList xs) = Inr xs"
| "iter (JDict kvs) = Inr (map (\<lambda>kv. JStr (fst kv)) kvs)"
| "iter (JStr s) = Inr (map (\<lambda>c. JStr [c]) s)"
| "iter v = Inl TypeError"

text \<open>\<open>entry[key]\<close> with a string key.\<close>

fun getitem :: "json \<Rightarrow> string \<Rightarrow> py_error + json" where
  "getitem (JDict kvs) k = (case map_of kvs k of None \<Rightarrow> Inl KeyError | Some v \<Rightarrow> Inr v)"
| "getitem v k = Inl TypeError"

text \<open>
  Step 2, the loop over the loaded history. Only the \<open>ValueError\<close> of \<open>strptime\<close> is
  caught; a \<open>KeyError\<close> or \<open>TypeError\<close> leaves the loop and the function.
\<close>

fun prune :: "instant \<Rightarrow> json list \<Rightarrow> json list \<Rightarrow> py_error + json list" where
  "prune cutoff [] new_history = Inr new_history"
| "prune cutoff (entry # rest) new_history =
     (case getitem entry ''date'' of
        Inl e \<Rightarrow> Inl e
      | Inr v \<Rightarrow>
          (case v of
             JStr s \<Rightarrow>
               (case strptime_slash s of
                  None \<Rightarrow> prune cutoff rest new_history
                | Some entry_date \<Rightarrow>
                    if instant_le cutoff (instant_of entry_date)
                    then prune cutoff rest (new_history @ [entry])
                    else prune cutoff rest new_history)
           | _ \<Rightarrow> Inl TypeError))"

text \<open>\<open>[e for e in new_history if e["date"] != today]\<close>.\<close>

fun drop_today :: "string \<Rightarrow> json list \<Rightarrow> py_error + json list" where
  "drop_today today [] = Inr []"
| "drop_today today (e # es) =
     (case getitem e ''date'' of
        Inl err \<Rightarrow> Inl err
      | Inr v \<Rightarrow>
          (case drop_today today es of
             Inl err \<Rightarrow> Inl err
           | Inr kept \<Rightarrow> Inr (if v \<noteq> JStr today then e # kept else kept)))"

text \<open>
  \<open>random.sample(population, k)\<close> raises \<open>ValueError\<close> unless \<open>0 \<le> k \<le> len(population)\<close>
  and otherwise returns the elements at the positions the random source selects. The
  random source is the parameter \<open>picks\<close>: \<open>picks n k\<close> are the positions selected for a
  sample of \<open>k\<close> out of \<open>n\<close>. The library promises sampling without replacement, which is
  \<open>sampler\<close>.
\<close>

fun pick :: "'a list \<Rightarrow> nat list \<Rightarrow> py_error + 'a list" where
  "pick xs [] = Inr []"
| "pick xs (i # js) =
     (if i < length xs
      then (case pick xs js of Inl e \<Rightarrow> Inl e | Inr ys \<Rightarrow> Inr (xs ! i # ys))
      else Inl IndexError)"

definition random_sample :: "(nat \<Rightarrow> nat \<Rightarrow> nat list) \<Rightarrow> 'a list \<Rightarrow> int \<Rightarrow> py_error + 'a list" where
  "random_sample picks population k =
     (if k < 0 \<or> int (length population) < k then Inl ValueError
      else pick population (picks (length population) (nat k)))"

definition sampler :: "(nat \<Rightarrow> nat \<Rightarrow> nat list) \<Rightarrow> bool" where
  "sampler picks =
     (\<forall>n k. k \<le> n \<longrightarrow>
        length (picks n k) = k \<and> distinct (picks n k) \<and> (\<forall>i \<in> set (picks n k). i < n))"

text \<open>Step 3, the sampling step.\<close>

definition display_items :: "(nat \<Rightarrow> nat \<Rightarrow> nat list) \<Rightarrow> 'a list \<Rightarrow> int \<Rightarrow> py_error + 'a list" where
  "display_items picks new_items target_count =
     (let num_to_sample = min target_count (int (length new_items))
      in if 0 < num_to_sample then random_sample picks new_items num_to_sample else Inr [])"

definition today_entry :: "datetime \<Rightarrow> json list \<Rightarrow> json" where
  "today_entry now items =
     JDict [(''date'', JStr (strftime_slash now)),
            (''filename'', JStr (strftime_filename now)),
            (''items'', JList items)]"

text \<open>
  \<open>update_history\<close>, the later copy, with the history file in \<open>SCRIPT_DIR\<close>. The result
  is the file system after the write and the returned items; an exception leaves the
  function before the write.
\<close>

definition update_history ::
  "string \<Rightarrow> (nat \<Rightarrow> nat \<Rightarrow> nat list) \<Rightarrow> datetime \<Rightarrow> json list \<Rightarrow> int \<Rightarrow> filesystem
     \<Rightarrow> py_error + (filesystem \<times> json list)" where
  "update_history script_dir picks now new_items target_count fs =
     (let HISTORY_FILE_PATH = os_path_join script_dir HISTORY_FILE_NAME;
          history = load_history fs HISTORY_FILE_PATH;
          today = strftime_slash now
      in case cutoff_date now of
           Inl e \<Rightarrow> Inl e
         | Inr cutoff \<Rightarrow>
        (case iter history of
           Inl e \<Rightarrow> Inl e
         | Inr entries \<Rightarrow>
        (case prune cutoff entries [] of
           Inl e \<Rightarrow> Inl e
         | Inr new_history \<Rightarrow>
        (case display_items picks new_items target_count of
           Inl e \<Rightarrow> Inl e
         | Inr items \<Rightarrow>
        (case drop_today today new_history of
           Inl e \<Rightarrow> Inl e
         | Inr kept \<Rightarrow>
             Inr (fs(HISTORY_FILE_PATH := Stored (JList (today_entry now items # kept))),
                  items))))))"

text \<open>
  \<open>update_history\<close>, the earlier copy (the \<open>generate_data\<close> script without the
  description generator). It opens the relative path \<open>"history.json"\<close>, which the
  system resolves against the working directory \<open>cwd\<close> of the process.
\<close>

definition HISTORY_FILE :: string where
  "HISTORY_FILE = ''history.json''"

definition update_history_gd ::
  "string \<Rightarrow> (nat \<Rightarrow> nat \<Rightarrow> nat list) \<Rightarrow> datetime \<Rightarrow> json list \<Rightarrow> int \<Rightarrow> filesystem
     \<Rightarrow> py_error + (filesystem \<times> json list)" where
  "update_history_gd cwd picks now new_items target_count fs =
     (let path = os_path_join cwd HISTORY_FILE;
          history = (case fs path of
                       Missing \<Rightarrow> JList []
                     | Undecodable txt \<Rightarrow> JList []
                     | Stored v \<Rightarrow> v);
          today = strftime_slash now;
          today_filename = strftime_filename now
      in case cutoff_date now of
           Inl e \<Rightarrow> Inl e
         | Inr cutoff \<Rightarrow>
        (case iter history of
           Inl e \<Rightarrow> Inl e
         | Inr entries \<Rightarrow>
        (case prune cutoff entries [] of
           Inl e \<Rightarrow> Inl e
         | Inr new_history \<Rightarrow>
        (let num_to_sample = min target_count (int (length new_items))
         in case (if 0 < num_to_sample then random_sample picks new_items num_to_sample
                  else Inr []) of
           Inl e \<Rightarrow> Inl e
         | Inr items \<Rightarrow>
        (let entry = JDict [(''date'', JStr today), (''filename'', JStr today_filename),
                            (''items'', JList items)]
         in case drop_today today new_history of
           Inl e \<Rightarrow> Inl e
         | Inr kept \<Rightarrow> Inr (fs(path := Stored (JList (entry # kept))), items))))))"

text \<open>
  Several runs, one after the other, each with its own random source, clock value and
  fresh items. A run that raises has not written the file.
\<close>

type_synonym run = "(nat \<Rightarrow> nat \<Rightarrow> nat list) \<times> datetime \<times> json list \<times> int"

fun runs :: "string \<Rightarrow> run list \<Rightarrow> filesystem \<Rightarrow> filesystem" where
  "runs script_dir [] fs = fs"
| "runs script_dir ((picks, now, new_items, target_count) # rest) fs =
     (case update_history script_dir picks now new_items target_count fs of
        Inl e \<Rightarrow> runs script_dir rest fs
      | Inr (fs', items) \<Rightarrow> runs script_dir rest fs')"

section \<open>What a record says\<close>

text \<open>
  The date field of a record when it is a string, the date that string parses to, and
  the test of the prune loop: the record's date, at midnight, is not before the cutoff.
\<close>

definition date_of :: "json \<Rightarrow> string option" where
  "date_of e = (case getitem e ''date'' of Inr (JStr s) \<Rightarrow> Some s | _ \<Rightarrow> None)"

definition entry_date :: "json \<Rightarrow> datetime option" where
  "entry_date e = (case date_of e of None \<Rightarrow> None | Some s \<Rightarrow> strptime_slash s)"

definition retained :: "instant \<Rightarrow> json \<Rightarrow> bool" where
  "retained cutoff e =
     (case entry_date e of None \<Rightarrow> False | Some d \<Rightarrow> instant_le cutoff (instant_of d))"

definition midnight :: "datetime \<Rightarrow> datetime" where
  "midnight t =
     \<lparr>year = year t, month = month t, day = day t,
      hour = 0, minute = 0, second = 0, microsecond = 0\<rparr>"

section \<open>The janitor\<close>

text \<open>
  \<open>date_pattern.match(filename)\<close> for the pattern \<open>recommend_(\d{8})\.html\<close>: \<open>match\<close>
  anchors the pattern at the start of the name only; the result is the group of eight
  digits.
\<close>

definition is_digit :: "char \<Rightarrow> bool" where
  "is_digit c = (digit_of c \<noteq> None)"

definition date_pattern_match :: "string \<Rightarrow> string option" where
  "date_pattern_match filename =
     (let r = drop 10 filename
      in if take 10 filename = ''recommend_'' \<and> 8 \<le> length r \<and> list_all is_digit (take 8 r)
            \<and> take 5 (drop 8 r) = ''.html''
         then Some (take 8 r) else None)"

text \<open>
  The loop of \<open>cleanup_old_html_files\<close> over the listing taken at its start. The
  directory is the list of its file names; \<open>os.remove\<close> takes the name out.
\<close>

fun cleanup_loop :: "instant \<Rightarrow> string list \<Rightarrow> string list \<Rightarrow> nat \<Rightarrow> string list \<times> nat" where
  "cleanup_loop cutoff [] dir deleted_count = (dir, deleted_count)"
| "cleanup_loop cutoff (filename # rest) dir deleted_count =
     (case date_pattern_match filename of
        None \<Rightarrow> cleanup_loop cutoff rest dir deleted_count
      | Some date_str \<Rightarrow>
          (case strptime_compact date_str of
             None \<Rightarrow> cleanup_loop cutoff rest dir deleted_count
           | Some file_date \<Rightarrow>
               if instant_less (instant_of file_date) cutoff
               then cleanup_loop cutoff rest (removeAll filename dir) (Suc deleted_count)
               else cleanup_loop cutoff rest dir deleted_count))"

definition cleanup_old_html_files :: "datetime \<Rightarrow> string list \<Rightarrow> py_error + (string list \<times> nat)" where
  "cleanup_old_html_files now dir =
     (case cutoff_date now of
        Inl e \<Rightarrow> Inl e
      | Inr cutoff \<Rightarrow> Inr (cleanup_loop cutoff dir dir 0))"

text \<open>The date a file name carries, and whether the janitor's test selects the name.\<close>

definition file_date :: "string \<Rightarrow> datetime option" where
  "file_date filename =
     (case date_pattern_match filename of None \<Rightarrow> None | Some ds \<Rightarrow> strptime_compact ds)"

definition expired :: "instant \<Rightarrow> string \<Rightarrow> bool" where
  "expired cutoff filename =
     (case file_date filename of None \<Rightarrow> False | Some d \<Rightarrow> instant_less (instant_of d) cutoff)"

text \<open>
  The two passes of one run over the directory of pages and the file system that holds
  the history, in the order of \<open>main\<close> and in the other order.
\<close>

definition policy_then_janitor ::
  "string \<Rightarrow> (nat \<Rightarrow> nat \<Rightarrow> nat list) \<Rightarrow> datetime \<Rightarrow> json list \<Rightarrow> int
     \<Rightarrow> string list \<times> filesystem \<Rightarrow> py_error + (string list \<times> filesystem)" where
  "policy_then_janitor script_dir picks now new_items target_count w =
     (case update_history script_dir picks now new_items target_count (snd w) of
        Inl e \<Rightarrow> Inl e
      | Inr (fs', items) \<Rightarrow>
          (case cleanup_old_html_files now (fst w) of
             Inl e \<Rightarrow> Inl e
           | Inr (dir', n) \<Rightarrow> Inr (dir', fs')))"

definition janitor_then_policy ::
  "string \<Rightarrow> (nat \<Rightarrow> nat \<Rightarrow> nat list) \<Rightarrow> datetime \<Rightarrow> json list \<Rightarrow> int
     \<Rightarrow> string list \<times> filesystem \<Rightarrow> py_error + (string list \<times> filesystem)" where
  "janitor_then_policy script_dir picks now new_items target_count w =
     (case cleanup_old_html_files now (fst w) of
        Inl e \<Rightarrow> Inl e
      | Inr (dir', n) \<Rightarrow>
          (case update_history script_dir picks now new_items target_count (snd w) of
             Inl e \<Rightarrow> Inl e
           | Inr (fs', items) \<Rightarrow> Inr (dir', fs')))"

section \<open>A sample run\<close>

text \<open>
  A site directory, a clock value and a stored history used to run the definitions: a
  stale record for the same day, a record of two weeks ago, one of 45 days ago and one
  whose date is not a date; three fresh items; a random source that picks the first
  positions.
\<close>

definition sample_dir :: string where
  "sample_dir = ''/srv/site''"

definition sample_now :: datetime where
  "sample_now = \<lparr>year = 2025, month = 3, day = 15, hour = 9, minute = 30, second = 0,
                  microsecond = 0\<rparr>"

definition sample_record :: "string \<Rightarrow> json" where
  "sample_record date = JDict [(''date'', JStr date), (''filename'', JStr ''page.html''),
                               (''items'', JList [])]"

definition sample_log :: "json list" where
  "sample_log = [sample_record ''2025/03/15'', sample_record ''2025/03/01'',
                 sample_record ''2025/01/29'', sample_record ''yesterday'']"

definition sample_items :: "json list" where
  "sample_items = [JStr ''a'', JStr ''b'', JStr ''c'']"

definition sample_picks :: "nat \<Rightarrow> nat \<Rightarrow> nat list" where
  "sample_picks n k = [0..<k]"

definition sample_fs :: filesystem where
  "sample_fs = (\<lambda>p. Missing)(''/srv/site/history.json'' := Stored (JList sample_log))"

text \<open>
  A file system whose history file holds a given log, a record without a date, a record
  whose date is a number, and the record of the day 30 days before the sample clock.
\<close>

definition sample_store :: "json list \<Rightarrow> filesystem" where
  "sample_store log = (\<lambda>p. Missing)(''/srv/site/history.json'' := Stored (JList log))"



definition sample_later :: datetime where
  "sample_later = \<lparr>year = 2025, month = 3, day = 15, hour = 18, minute = 0, second = 0,
                    microsecond = 0\<rparr>"

definition sample_listing :: "string list" where
  "sample_listing = [''recommend_20250315.html'', ''recommend_20250213.html'',
                     ''recommend_20250129.html'', ''recommend_20250230.html'',
                     ''index.html'', ''history.json'']"

section \<open>Facts about the matchers\<close>

lemma lt10_cases: "(k::nat) < 10 \<Longrightarrow> k = 0 \<or> k = 1 \<or> k = 2 \<or> k = 3 \<or> k = 4 \<or> k = 5 \<or> k = 6 \<or> k = 7 \<or> k = 8 \<or> k = 9"
  by arith

lemma digit_of_nth: "k < 10 \<Longrightarrow> digit_of (''0123456789'' ! k) = Some k"
  using lt10_cases[of k] by (auto simp: digit_of_def)

lemma digit_of_digit_char: "digit_of (digit_char n) = Some (n mod 10)"
  by (simp add: digit_char_def digit_of_nth)

lemma month_cases:
  "1 \<le> (m::nat) \<Longrightarrow> m \<le> 12 \<Longrightarrow>
   m = 1 \<or> m = 2 \<or> m = 3 \<or> m = 4 \<or> m = 5 \<or> m = 6 \<or> m = 7 \<or> m = 8 \<or> m = 9 \<or> m = 10 \<or> m = 11 \<or> m = 12"
  by arith

lemma re_m_pad2:
  assumes "1 \<le> m" "m \<le> 12"
  shows "hd (re_m (pad2 m @ s)) = (m, s) \<and> re_m (pad2 m @ s) \<noteq> []"
  using month_cases[OF assms]
  by (elim disjE) (simp_all add: re_m_def pad2_def two_chars_def one_char_def digit_char_def digit_of_def)

lemma day_cases:
  "1 \<le> (d::nat) \<Longrightarrow> d \<le> 31 \<Longrightarrow>
   d = 1 \<or> d = 2 \<or> d = 3 \<or> d = 4 \<or> d = 5 \<or> d = 6 \<or> d = 7 \<or> d = 8 \<or> d = 9 \<or> d = 10
   \<or> d = 11 \<or> d = 12 \<or> d = 13 \<or> d = 14 \<or> d = 15 \<or> d = 16 \<or> d = 17 \<or> d = 18 \<or> d = 19 \<or> d = 20
   \<or> d = 21 \<or> d = 22 \<or> d = 23 \<or> d = 24 \<or> d = 25 \<or> d = 26 \<or> d = 27 \<or> d = 28 \<or> d = 29 \<or> d = 30 \<or> d = 31"
  by arith

lemma re_d_pad2:
  assumes "1 \<le> d" "d \<le> 31"
  shows "hd (re_d (pad2 d @ s)) = (d, s) \<and> re_d (pad2 d @ s) \<noteq> []"
  using day_cases[OF assms]
  by (elim disjE) (simp_all add: re_d_def pad2_def two_chars_def one_char_def digit_char_def digit_of_def re_lit_def)

lemma decimal4:
  "1000 * (y div 1000) + 100 * (y div 100 mod 10) + 10 * (y div 10 mod 10) + y mod 10 = (y::nat)"
proof -
  define A where "A = y div 10"
  define B where "B = A div 10"
  define C where "C = B div 10"
  have "y = 10 * A + y mod 10" "A = 10 * B + A mod 10" "B = 10 * C + B mod 10"
    by (simp_all add: A_def B_def C_def)
  then have e: "1000 * C + 100 * (B mod 10) + 10 * (A mod 10) + y mod 10 = y"
    by linarith
  have "B = y div 100" "C = y div 1000"
    by (simp_all add: A_def B_def C_def div_mult2_eq[symmetric])
  with e show ?thesis by (simp add: A_def)
qed

lemma re_Y_pad4: "y \<le> 9999 \<Longrightarrow> re_Y (pad4 y @ r) = [(y, r)]"
  by (simp add: re_Y_def pad4_def digit_of_digit_char decimal4)

lemma finish_match_first: "finish_match ((y, m, d, []) # rest) = make_date y m d"
  by (simp add: finish_match_def)

lemma days_in_month_le: "days_in_month y m \<le> 31"
  by (simp add: days_in_month_def)

lemma strptime_slash_pad:
  assumes "valid_date y m d"
  shows "strptime_slash (pad4 y @ CHR ''/'' # pad2 m @ CHR ''/'' # pad2 d) = make_date y m d"
proof -
  from assms have y: "y \<le> 9999" and m: "1 \<le> m" "m \<le> 12" and d: "1 \<le> d" "d \<le> 31"
    using days_in_month_le[of y m] by (auto simp: valid_date_def)
  from re_m_pad2[OF m, of "CHR ''/'' # pad2 d"] obtain ms
    where ms: "re_m (pad2 m @ CHR ''/'' # pad2 d) = (m, CHR ''/'' # pad2 d) # ms"
    by (cases "re_m (pad2 m @ CHR ''/'' # pad2 d)") auto
  from re_d_pad2[OF d, of "[]"] obtain ds where ds: "re_d (pad2 d) = (d, []) # ds"
    by (cases "re_d (pad2 d)") auto
  show ?thesis
    by (simp add: strptime_slash_def re_Y_pad4[OF y] re_lit_def ms ds finish_match_first)
qed

lemma strptime_compact_pad:
  assumes "valid_date y m d"
  shows "strptime_compact (pad4 y @ pad2 m @ pad2 d) = make_date y m d"
proof -
  from assms have y: "y \<le> 9999" and m: "1 \<le> m" "m \<le> 12" and d: "1 \<le> d" "d \<le> 31"
    using days_in_month_le[of y m] by (auto simp: valid_date_def)
  from re_m_pad2[OF m, of "pad2 d"] obtain ms
    where ms: "re_m (pad2 m @ pad2 d) = (m, pad2 d) # ms"
    by (cases "re_m (pad2 m @ pad2 d)") auto
  from re_d_pad2[OF d, of "[]"] obtain ds where ds: "re_d (pad2 d) = (d, []) # ds"
    by (cases "re_d (pad2 d)") auto
  show ?thesis
    by (simp add: strptime_compact_def re_Y_pad4[OF y] ms ds finish_match_first)
qed

lemma make_date_midnight:
  "valid_datetime t \<Longrightarrow> make_date (year t) (month t) (day t) = Some (midnight t)"
  by (simp add: valid_datetime_def make_date_def midnight_def)

lemma strptime_strftime:
  "valid_datetime t \<Longrightarrow> strptime_slash (strftime_slash t) = Some (midnight t)"
  using strptime_slash_pad[of "year t" "month t" "day t"] make_date_midnight[of t]
  by (simp add: strftime_slash_def valid_datetime_def)

lemma date_pattern_match_filename:
  "date_pattern_match (strftime_filename t) = Some (pad4 (year t) @ pad2 (month t) @ pad2 (day t))"
  by (simp add: date_pattern_match_def strftime_filename_def pad4_def pad2_def is_digit_def
      digit_of_digit_char Let_def)

lemma file_date_filename:
  "valid_datetime t \<Longrightarrow> file_date (strftime_filename t) = Some (midnight t)"
  using strptime_compact_pad[of "year t" "month t" "day t"] make_date_midnight[of t]
  by (simp add: file_date_def date_pattern_match_filename valid_datetime_def)

section \<open>Facts about the retention pass\<close>

lemma date_of_cases:
  "(\<exists>s. getitem e ''date'' = Inr (JStr s) \<and> date_of e = Some s)
   \<or> (date_of e = None \<and> (\<exists>err. getitem e ''date'' = Inl err))
   \<or> (date_of e = None \<and> (\<exists>v. getitem e ''date'' = Inr v \<and> (\<forall>s. v \<noteq> JStr s)))"
  by (auto simp: date_of_def split: sum.splits json.splits)

lemma prune_dated:
  "date_of e = Some s \<Longrightarrow>
   prune cutoff (e # rest) acc =
     (if retained cutoff e then prune cutoff rest (acc @ [e]) else prune cutoff rest acc)"
  using date_of_cases[of e]
  by (auto simp: retained_def entry_date_def split: option.splits)

lemma prune_undated:
  "date_of e = None \<Longrightarrow> \<exists>err. prune cutoff (e # rest) acc = Inl err"
  using date_of_cases[of e]
  by (auto split: json.splits)

lemma prune_ok:
  "\<forall>e \<in> set xs. date_of e \<noteq> None \<Longrightarrow>
   prune cutoff xs acc = Inr (acc @ filter (retained cutoff) xs)"
proof (induction xs arbitrary: acc)
  case Nil
  show ?case by simp
next
  case (Cons e xs)
  then obtain s where s: "date_of e = Some s" by auto
  from Cons have rest: "\<forall>e \<in> set xs. date_of e \<noteq> None" by simp
  show ?case
    unfolding prune_dated[OF s] using Cons.IH[OF rest] by simp
qed

lemma prune_Inr_dated:
  "prune cutoff xs acc = Inr ys \<Longrightarrow> \<forall>e \<in> set xs. date_of e \<noteq> None"
proof (induction xs arbitrary: acc)
  case Nil
  show ?case by simp
next
  case (Cons e xs)
  show ?case
  proof (cases "date_of e")
    case None
    from prune_undated[OF None, of cutoff xs acc] Cons.prems show ?thesis by auto
  next
    case (Some s)
    from Cons.prems have "\<exists>acc'. prune cutoff xs acc' = Inr ys"
      unfolding prune_dated[OF Some] by (auto split: if_splits)
    with Cons.IH Some show ?thesis by auto
  qed
qed

lemma drop_today_ok:
  "\<forall>e \<in> set xs. date_of e \<noteq> None \<Longrightarrow>
   drop_today today xs = Inr (filter (\<lambda>e. date_of e \<noteq> Some today) xs)"
proof (induction xs)
  case Nil
  show ?case by simp
next
  case (Cons e xs)
  then obtain s where s: "date_of e = Some s" by auto
  with date_of_cases[of e] have g: "getitem e ''date'' = Inr (JStr s)" by auto
  from Cons have "drop_today today xs = Inr (filter (\<lambda>e. date_of e \<noteq> Some today) xs)" by simp
  then show ?case using s g by simp
qed

lemma retained_dated: "retained cutoff e \<Longrightarrow> date_of e \<noteq> None"
  by (auto simp: retained_def entry_date_def split: option.splits)

lemma update_history_Inr:
  assumes "update_history script_dir picks now new_items target_count fs = Inr (fs', items)"
  shows "\<exists>cutoff entries.
           cutoff_date now = Inr cutoff
         \<and> iter (load_history fs (os_path_join script_dir HISTORY_FILE_NAME)) = Inr entries
         \<and> (\<forall>e \<in> set entries. date_of e \<noteq> None)
         \<and> display_items picks new_items target_count = Inr items
         \<and> fs' = fs(os_path_join script_dir HISTORY_FILE_NAME :=
                    Stored (JList (today_entry now items
                      # filter (\<lambda>e. date_of e \<noteq> Some (strftime_slash now))
                          (filter (retained cutoff) entries))))"
proof -
  let ?p = "os_path_join script_dir HISTORY_FILE_NAME"
  from assms obtain cutoff where c: "cutoff_date now = Inr cutoff"
    by (cases "cutoff_date now") (auto simp: update_history_def Let_def)
  from assms c obtain entries where i: "iter (load_history fs ?p) = Inr entries"
    by (cases "iter (load_history fs ?p)") (auto simp: update_history_def Let_def)
  from assms c i obtain nh where p: "prune cutoff entries [] = Inr nh"
    by (cases "prune cutoff entries []") (auto simp: update_history_def Let_def)
  from prune_Inr_dated[OF p] have dated: "\<forall>e \<in> set entries. date_of e \<noteq> None" .
  from prune_ok[OF dated, of cutoff "[]"] p have nh: "nh = filter (retained cutoff) entries" by simp
  from assms c i p obtain its where d: "display_items picks new_items target_count = Inr its"
    by (cases "display_items picks new_items target_count") (auto simp: update_history_def Let_def)
  have "\<forall>e \<in> set nh. date_of e \<noteq> None" using dated nh by auto
  from drop_today_ok[OF this, of "strftime_slash now"]
  have dt: "drop_today (strftime_slash now) nh = Inr (filter (\<lambda>e. date_of e \<noteq> Some (strftime_slash now)) nh)" .
  from assms c i p d dt have "its = items" and
    "fs' = fs(?p := Stored (JList (today_entry now items # filter (\<lambda>e. date_of e \<noteq> Some (strftime_slash now)) nh)))"
    by (auto simp: update_history_def Let_def)
  with c i dated d nh show ?thesis by auto
qed

lemma update_history_ok:
  assumes c: "cutoff_date now = Inr cutoff"
    and i: "iter (load_history fs (os_path_join script_dir HISTORY_FILE_NAME)) = Inr entries"
    and dated: "\<forall>e \<in> set entries. date_of e \<noteq> None"
    and d: "display_items picks new_items target_count = Inr items"
  shows "update_history script_dir picks now new_items target_count fs =
           Inr (fs(os_path_join script_dir HISTORY_FILE_NAME :=
                    Stored (JList (today_entry now items
                      # filter (\<lambda>e. date_of e \<noteq> Some (strftime_slash now))
                          (filter (retained cutoff) entries)))), items)"
proof -
  have "\<forall>e \<in> set (filter (retained cutoff) entries). date_of e \<noteq> None" using dated by auto
  from drop_today_ok[OF this, of "strftime_slash now"] prune_ok[OF dated, of cutoff "[]"] c i d
  show ?thesis by (simp add: update_history_def Let_def)
qed

lemma date_of_today_entry: "date_of (today_entry now items) = Some (strftime_slash now)"
  by (simp add: date_of_def today_entry_def)

lemma entry_date_today_entry:
  "valid_datetime now \<Longrightarrow> entry_date (today_entry now items) = Some (midnight now)"
  by (simp add: entry_date_def date_of_today_entry strptime_strftime)

lemma instant_midnight: "instant_of (midnight t) = (toordinal t, 0)"
  by (simp add: instant_of_def midnight_def toordinal_def time_of_day_def)

lemma cutoff_before_today:
  "cutoff_date now = Inr cutoff \<Longrightarrow> instant_le cutoff (toordinal now, 0)"
  by (auto simp: cutoff_date_def instant_le_def MAX_DAYS_def split: if_splits)

lemma retained_today_entry:
  "valid_datetime now \<Longrightarrow> cutoff_date now = Inr cutoff \<Longrightarrow> retained cutoff (today_entry now items)"
  by (simp add: retained_def entry_date_today_entry instant_midnight cutoff_before_today)

lemma sample_path: "os_path_join sample_dir HISTORY_FILE_NAME = ''/srv/site/history.json''"
  by (simp add: os_path_join_def sample_dir_def HISTORY_FILE_NAME_def)

lemma sample_valid: "valid_datetime sample_now"
  by (simp add: valid_datetime_def valid_date_def days_in_month_def sample_now_def)

lemma sample_cutoff: "cutoff_date sample_now = Inr (739295, 34200000000)"
  by (simp add: cutoff_date_def toordinal_def days_before_year_def days_before_month_def
      is_leap_def time_of_day_def MAX_DAYS_def sample_now_def)

lemmas parse_defs = strptime_slash_def re_Y_def re_lit_def re_m_def re_d_def two_chars_def
  one_char_def digit_of_def finish_match_def make_date_def valid_date_def days_in_month_def
  is_leap_def

lemmas instant_defs = instant_of_def instant_le_def instant_less_def toordinal_def
  days_before_year_def days_before_month_def is_leap_def time_of_day_def

lemma sample_today: "strftime_slash sample_now = ''2025/03/15''"
  by (simp add: strftime_slash_def pad4_def pad2_def digit_char_def sample_now_def)

lemma sample_date_of: "date_of (sample_record s) = Some s"
  by (simp add: date_of_def sample_record_def)

lemma sample_retained:
  "retained (739295, 34200000000) (sample_record ''2025/03/15'')"
  "retained (739295, 34200000000) (sample_record ''2025/03/01'')"
  "\<not> retained (739295, 34200000000) (sample_record ''2025/01/29'')"
  "\<not> retained (739295, 34200000000) (sample_record ''yesterday'')"
  by (simp_all add: retained_def entry_date_def sample_date_of parse_defs instant_defs)

lemma sample_display: "display_items sample_picks sample_items 5 = Inr sample_items"
  by (simp add: display_items_def random_sample_def sample_picks_def sample_items_def upt_conv_Cons)

lemma sample_run:
  "update_history sample_dir sample_picks sample_now sample_items 5 sample_fs =
     Inr (sample_fs(''/srv/site/history.json'' :=
            Stored (JList [today_entry sample_now sample_items, sample_record ''2025/03/01''])),
          sample_items)"
proof -
  have i: "iter (load_history sample_fs (os_path_join sample_dir HISTORY_FILE_NAME)) = Inr sample_log"
    by (simp add: sample_path load_history_def sample_fs_def)
  have d: "\<forall>e \<in> set sample_log. date_of e \<noteq> None"
    by (simp add: sample_log_def sample_date_of)
  show ?thesis
    using update_history_ok[OF sample_cutoff i d sample_display]
    by (simp add: sample_path sample_log_def sample_retained sample_date_of sample_today)
qed


lemma instant_le_not_less: "instant_le a b \<Longrightarrow> \<not> instant_less b a"
  by (auto simp: instant_le_def instant_less_def)

lemma retained_iff:
  "retained cutoff e \<longleftrightarrow> (\<exists>d. entry_date e = Some d \<and> instant_le cutoff (instant_of d))"
  by (simp add: retained_def split: option.splits)

lemma filter_both:
  "filter P (filter Q xs) = filter (\<lambda>e. Q e \<and> P e) xs"
  by (induction xs) auto

lemma pick_ok:
  "\<forall>i \<in> set ps. i < length xs \<Longrightarrow> pick xs ps = Inr (map (\<lambda>i. xs ! i) ps)"
  by (induction ps) auto

lemma display_items_ok:
  assumes "sampler picks"
  shows "\<exists>ps. display_items picks new_items target_count = Inr (map (\<lambda>i. new_items ! i) ps)
           \<and> length ps = nat (min target_count (int (length new_items)))
           \<and> distinct ps \<and> (\<forall>i \<in> set ps. i < length new_items)"
proof (cases "0 < min target_count (int (length new_items))")
  case False
  then have "display_items picks new_items target_count = Inr (map (\<lambda>i. new_items ! i) [])"
    unfolding display_items_def Let_def by (simp only: if_False list.map)
  with False show ?thesis by fastforce
next
  case True
  let ?n = "length new_items"
  let ?k = "nat (min target_count (int ?n))"
  let ?ps = "picks ?n ?k"
  have k: "?k \<le> ?n" by simp
  with assms have s: "length ?ps = ?k" "distinct ?ps" "\<forall>i \<in> set ?ps. i < ?n"
    unfolding sampler_def by blast+
  have nk: "\<not> (min target_count (int ?n) < 0 \<or> int ?n < min target_count (int ?n))"
    using True by auto
  have "display_items picks new_items target_count
          = random_sample picks new_items (min target_count (int ?n))"
    using True unfolding display_items_def Let_def by (simp only: if_True)
  also have "\<dots> = pick new_items ?ps"
    unfolding random_sample_def using nk by (simp only: if_False)
  finally have "display_items picks new_items target_count = pick new_items ?ps" .
  with pick_ok[OF s(3)] s show ?thesis by auto
qed

lemma sample_sampler: "sampler sample_picks"
  by (auto simp: sampler_def sample_picks_def)



lemma finish_match_midnight: "finish_match found = Some d \<Longrightarrow> time_of_day d = 0"
  by (auto simp: finish_match_def make_date_def time_of_day_def split: list.splits if_splits)

lemma entry_date_midnight: "entry_date e = Some d \<Longrightarrow> time_of_day d = 0"
  by (auto simp: entry_date_def strptime_slash_def finish_match_midnight split: option.splits)

lemma retained_by_days:
  assumes "cutoff_date now = Inr cutoff"
  shows "retained cutoff e =
           (case entry_date e of
              None \<Rightarrow> False
            | Some d \<Rightarrow> toordinal now - MAX_DAYS < toordinal d
                        \<or> (toordinal d = toordinal now - MAX_DAYS \<and> time_of_day now = 0))"
proof (cases "entry_date e")
  case None
  then show ?thesis by (simp add: retained_def)
next
  case (Some d)
  from assms have "cutoff = (toordinal now - MAX_DAYS, time_of_day now)"
    by (auto simp: cutoff_date_def split: if_splits)
  with Some entry_date_midnight[OF Some] show ?thesis
    by (auto simp: retained_def instant_le_def instant_of_def)
qed

lemma sample_store_path:
  "iter (load_history (sample_store log) (os_path_join sample_dir HISTORY_FILE_NAME)) = Inr log"
  by (simp add: sample_path load_history_def sample_store_def)

lemma sample_midnight_valid: "valid_datetime (midnight sample_now)"
  by (simp add: valid_datetime_def valid_date_def days_in_month_def sample_now_def midnight_def)

lemma sample_cutoff_midnight: "cutoff_date (midnight sample_now) = Inr (739295, 0)"
  by (simp add: cutoff_date_def toordinal_def days_before_year_def days_before_month_def
      is_leap_def time_of_day_def MAX_DAYS_def sample_now_def midnight_def)

lemma sample_today_midnight: "strftime_slash (midnight sample_now) = ''2025/03/15''"
  by (simp add: strftime_slash_def pad4_def pad2_def digit_char_def sample_now_def midnight_def)

lemma sample_boundary:
  "\<not> retained (739295, 34200000000) (sample_record ''2025/02/13'')"
  "retained (739295, 0) (sample_record ''2025/02/13'')"
  by (simp_all add: retained_def entry_date_def sample_date_of parse_defs instant_defs)

section \<open>Loading the history file\<close>


text \<open>
  C1. After one pass of \<open>update_history\<close> that returns, every record of the saved log
  has a date that parses and that, at midnight, is not before the cutoff of 30 days
  before the clock value; no record older than the cutoff is in the saved log.
\<close>

theorem retention_bound:
  assumes "valid_datetime now"
    and "update_history script_dir picks now new_items target_count fs = Inr (fs', items)"
  shows "\<exists>cutoff log.
           cutoff_date now = Inr cutoff
         \<and> fs' (os_path_join script_dir HISTORY_FILE_NAME) = Stored (JList log)
         \<and> (\<forall>r \<in> set log. \<exists>d. entry_date r = Some d \<and> instant_le cutoff (instant_of d)
                \<and> \<not> instant_less (instant_of d) cutoff)"
proof -
  from update_history_Inr[OF assms(2)] obtain cutoff entries where
    c: "cutoff_date now = Inr cutoff" and
    f: "fs' = fs(os_path_join script_dir HISTORY_FILE_NAME :=
                    Stored (JList (today_entry now items
                      # filter (\<lambda>e. date_of e \<noteq> Some (strftime_slash now))
                          (filter (retained cutoff) entries))))"
    by blast
  let ?log = "today_entry now items
                # filter (\<lambda>e. date_of e \<noteq> Some (strftime_slash now))
                    (filter (retained cutoff) entries)"
  have "\<forall>r \<in> set ?log. retained cutoff r"
    using retained_today_entry[OF assms(1) c] by auto
  then have "\<forall>r \<in> set ?log. \<exists>d. entry_date r = Some d \<and> instant_le cutoff (instant_of d)
                \<and> \<not> instant_less (instant_of d) cutoff"
    using retained_iff instant_le_not_less by blast
  with c f show ?thesis by auto
qed

theorem retention_bound_witness:
  "\<exists>cutoff log.
      cutoff_date sample_now = Inr cutoff
    \<and> (sample_fs(''/srv/site/history.json'' :=
          Stored (JList [today_entry sample_now sample_items, sample_record ''2025/03/01''])))
        (os_path_join sample_dir HISTORY_FILE_NAME) = Stored (JList log)
    \<and> (\<forall>r \<in> set log. \<exists>d. entry_date r = Some d \<and> instant_le cutoff (instant_of d)
           \<and> \<not> instant_less (instant_of d) cutoff)"
  using retention_bound[OF sample_valid sample_run] .

text \<open>
  C6. After \<open>update_history\<close> has inserted today's record, that record is at index 0
  of the saved log, and the records after it are the surviving records of the loaded
  log in the order they had there: the prune and the filter of today's date keep the
  order, and nothing sorts.
\<close>

theorem order_invariant:
  assumes "update_history script_dir picks now new_items target_count fs = Inr (fs', items)"
  shows "\<exists>cutoff entries rest.
           cutoff_date now = Inr cutoff
         \<and> iter (load_history fs (os_path_join script_dir HISTORY_FILE_NAME)) = Inr entries
         \<and> fs' (os_path_join script_dir HISTORY_FILE_NAME)
             = Stored (JList (today_entry now items # rest))
         \<and> (today_entry now items # rest) ! 0 = today_entry now items
         \<and> rest = filter (\<lambda>e. retained cutoff e \<and> date_of e \<noteq> Some (strftime_slash now)) entries
         \<and> subseq rest entries"
proof -
  from update_history_Inr[OF assms] obtain cutoff entries where
    c: "cutoff_date now = Inr cutoff" and
    i: "iter (load_history fs (os_path_join script_dir HISTORY_FILE_NAME)) = Inr entries" and
    f: "fs' = fs(os_path_join script_dir HISTORY_FILE_NAME :=
                    Stored (JList (today_entry now items
                      # filter (\<lambda>e. date_of e \<noteq> Some (strftime_slash now))
                          (filter (retained cutoff) entries))))"
    by blast
  let ?rest = "filter (\<lambda>e. retained cutoff e \<and> date_of e \<noteq> Some (strftime_slash now)) entries"
  have "subseq ?rest entries" by simp
  with c i f show ?thesis by (auto simp: filter_both)
qed

theorem order_invariant_witness:
  "\<exists>cutoff entries rest.
      cutoff_date sample_now = Inr cutoff
    \<and> iter (load_history sample_fs (os_path_join sample_dir HISTORY_FILE_NAME)) = Inr entries
    \<and> (sample_fs(''/srv/site/history.json'' :=
          Stored (JList [today_entry sample_now sample_items, sample_record ''2025/03/01''])))
        (os_path_join sample_dir HISTORY_FILE_NAME)
        = Stored (JList (today_entry sample_now sample_items # rest))
    \<and> (today_entry sample_now sample_items # rest) ! 0 = today_entry sample_now sample_items
    \<and> rest = filter (\<lambda>e. retained cutoff e \<and> date_of e \<noteq> Some (strftime_slash sample_now)) entries
    \<and> subseq rest entries"
  using order_invariant[OF sample_run] .

text \<open>
  C10. The two copies of \<open>update_history\<close> compute the same thing. Run in the same
  directory they give the same result: the same error, or the same file system after the
  write and the same returned items. Run in two directories whose history files hold the
  same content, they raise the same error or write the same log, each to its own file,
  and return the same items.
\<close>

theorem update_history_copies_agree:
  "update_history_gd d picks now new_items target_count fs
     = update_history d picks now new_items target_count fs
   \<and> map_sum id (\<lambda>r. (fst r (os_path_join cwd HISTORY_FILE), snd r))
       (update_history_gd cwd picks now new_items target_count
          (fs1(os_path_join cwd HISTORY_FILE := h)))
     = map_sum id (\<lambda>r. (fst r (os_path_join script_dir HISTORY_FILE_NAME), snd r))
         (update_history script_dir picks now new_items target_count
            (fs2(os_path_join script_dir HISTORY_FILE_NAME := h)))"
  by (simp add: update_history_gd_def update_history_def load_history_def display_items_def
      today_entry_def HISTORY_FILE_def HISTORY_FILE_NAME_def Let_def
      split: sum.splits history_file.splits)

text \<open>
  C8. With a random source that honours the contract of \<open>random.sample\<close>, the sampling
  step with target count \<open>k\<close> (5 in the program) returns the elements of the pool at
  \<open>min k n\<close> positions of the pool of size \<open>n\<close>, no position twice, so every returned
  element is a member of the pool; an empty pool gives the empty list.
\<close>

theorem sampler_bound:
  assumes "sampler picks"
  shows "\<exists>ps. display_items picks new_items (int k) = Inr (map (\<lambda>i. new_items ! i) ps)
           \<and> length ps = min k (length new_items)
           \<and> distinct ps
           \<and> (\<forall>i \<in> set ps. i < length new_items)
           \<and> set (map (\<lambda>i. new_items ! i) ps) \<subseteq> set new_items
           \<and> display_items picks ([] :: 'a list) (int k) = Inr []"
proof -
  from display_items_ok[OF assms, of new_items "int k"] obtain ps where
    ps: "display_items picks new_items (int k) = Inr (map (\<lambda>i. new_items ! i) ps)"
        "length ps = nat (min (int k) (int (length new_items)))"
        "distinct ps" "\<forall>i \<in> set ps. i < length new_items"
    by blast
  from ps(2) have l: "length ps = min k (length new_items)" by simp
  from ps(4) have m: "set (map (\<lambda>i. new_items ! i) ps) \<subseteq> set new_items" by auto
  have e: "display_items picks ([] :: 'a list) (int k) = Inr []"
    by (simp add: display_items_def Let_def)
  from ps(1) l ps(3) ps(4) m e show ?thesis by blast
qed

theorem sampler_bound_witness:
  "\<exists>ps. display_items sample_picks sample_items (int 5) = Inr (map (\<lambda>i. sample_items ! i) ps)
     \<and> length ps = min 5 (length sample_items)
     \<and> distinct ps
     \<and> (\<forall>i \<in> set ps. i < length sample_items)
     \<and> set (map (\<lambda>i. sample_items ! i) ps) \<subseteq> set sample_items
     \<and> display_items sample_picks ([] :: json list) (int 5) = Inr []"
  using sampler_bound[OF sample_sampler, of sample_items 5] .




text \<open>
  C5, as stated, fails: on 2025-03-15 the record dated 2025/02/13, 30 calendar days
  earlier, is dropped by a run at 09:30 and kept by a run at midnight of the same day.
\<close>

theorem boundary_record_depends_on_time_of_day:
  "update_history sample_dir sample_picks sample_now sample_items 5
     (sample_store [sample_record ''2025/02/13''])
     = Inr ((sample_store [sample_record ''2025/02/13''])
              (''/srv/site/history.json'' := Stored (JList [today_entry sample_now sample_items])),
            sample_items)
   \<and> update_history sample_dir sample_picks (midnight sample_now) sample_items 5
       (sample_store [sample_record ''2025/02/13''])
     = Inr ((sample_store [sample_record ''2025/02/13''])
              (''/srv/site/history.json'' :=
                 Stored (JList [today_entry (midnight sample_now) sample_items,
                                sample_record ''2025/02/13''])),
            sample_items)
   \<and> strftime_slash (midnight sample_now) = strftime_slash sample_now
   \<and> toordinal sample_now - 30 = 739295
   \<and> map_option toordinal (entry_date (sample_record ''2025/02/13'')) = Some 739295"
proof -
  have d: "\<forall>e \<in> set [sample_record ''2025/02/13'']. date_of e \<noteq> None"
    by (simp add: sample_date_of)
  have a: "update_history sample_dir sample_picks sample_now sample_items 5
     (sample_store [sample_record ''2025/02/13''])
     = Inr ((sample_store [sample_record ''2025/02/13''])
              (''/srv/site/history.json'' := Stored (JList [today_entry sample_now sample_items])),
            sample_items)"
    using update_history_ok[OF sample_cutoff sample_store_path d sample_display]
    by (simp add: sample_path sample_boundary)
  have b: "update_history sample_dir sample_picks (midnight sample_now) sample_items 5
       (sample_store [sample_record ''2025/02/13''])
     = Inr ((sample_store [sample_record ''2025/02/13''])
              (''/srv/site/history.json'' :=
                 Stored (JList [today_entry (midnight sample_now) sample_items,
                                sample_record ''2025/02/13''])),
            sample_items)"
    using update_history_ok[OF sample_cutoff_midnight sample_store_path d sample_display]
    by (simp add: sample_path sample_boundary sample_date_of sample_today_midnight)
  have c: "strftime_slash (midnight sample_now) = strftime_slash sample_now"
    by (simp add: sample_today sample_today_midnight)
  have e: "toordinal sample_now - 30 = 739295"
    by (simp add: toordinal_def days_before_year_def days_before_month_def is_leap_def
        sample_now_def)
  have f: "map_option toordinal (entry_date (sample_record ''2025/02/13'')) = Some 739295"
    by (simp add: entry_date_def sample_date_of parse_defs instant_defs)
  from a b c e f show ?thesis by simp
qed

text \<open>
  C5, amended. The prune compares the record's date, at midnight, with the moment of
  the run less 30 days, time of day included. Of the records that have a string date, it
  keeps those dated fewer than 30 calendar days before the day of the run, whatever the
  time of day, and the record dated exactly 30 calendar days before it only when the run
  is at 00:00:00.000000; it drops every other one.
\<close>

theorem retention_comparison:
  assumes "cutoff_date now = Inr cutoff"
    and "\<forall>e \<in> set entries. date_of e \<noteq> None"
  shows "prune cutoff entries [] =
           Inr (filter (\<lambda>e. case entry_date e of
                               None \<Rightarrow> False
                             | Some d \<Rightarrow> toordinal now - MAX_DAYS < toordinal d
                                 \<or> (toordinal d = toordinal now - MAX_DAYS \<and> time_of_day now = 0))
                  entries)"
proof -
  have "retained cutoff =
          (\<lambda>e. case entry_date e of
                  None \<Rightarrow> False
                | Some d \<Rightarrow> toordinal now - MAX_DAYS < toordinal d
                    \<or> (toordinal d = toordinal now - MAX_DAYS \<and> time_of_day now = 0))"
    by (rule ext) (rule retained_by_days[OF assms(1)])
  with prune_ok[OF assms(2), of cutoff "[]"] show ?thesis by simp
qed

theorem retention_comparison_witness:
  "prune (739295, 34200000000) sample_log [] =
     Inr (filter (\<lambda>e. case entry_date e of
                         None \<Rightarrow> False
                       | Some d \<Rightarrow> toordinal sample_now - MAX_DAYS < toordinal d
                           \<or> (toordinal d = toordinal sample_now - MAX_DAYS
                               \<and> time_of_day sample_now = 0))
            sample_log)"
proof -
  have d: "\<forall>e \<in> set sample_log. date_of e \<noteq> None"
    by (simp add: sample_log_def sample_date_of)
  from retention_comparison[OF sample_cutoff d] show ?thesis .
qed

end
